theory Spec2Isabelle
  imports Main
begin

section \<open>Values and exceptions of the weather script\<close>

text \<open>
  The script \<^verbatim>\<open>docs/get_weather/get_weather.py\<close> handles the values that a decoded JSON
  body is made of. A Python \<^verbatim>\<open>dict\<close> keeps its insertion order, so it is an association list
  (with string keys, as every dictionary of the script has); a lookup finds the value stored
  under a key with \<open>map_of\<close>. Strings are sequences of code points below 256. Floating-point
  numbers are outside the model.
\<close>

datatype pyval =
    PNone
  | PBool bool
  | PInt int
  | PStr string
  | PList "pyval list"
  | PDict "(string \<times> pyval) list"

text \<open>
  The exceptions the script's own code raises: the \<^verbatim>\<open>TypeError\<close> of \<^verbatim>\<open>search_weather\<close>
  and of subscripting a value that is no mapping (with the interpreter's message), and the
  \<^verbatim>\<open>KeyError\<close> of a missing key (with the key).
\<close>

datatype exn = TypeError string | KeyError string

definition then_exn :: "exn + 'a \<Rightarrow> ('a \<Rightarrow> exn + 'b) \<Rightarrow> exn + 'b" where
  "then_exn r f = (case r of Inl e \<Rightarrow> Inl e | Inr v \<Rightarrow> f v)"

definition squote :: "string \<Rightarrow> string" where
  "squote s = CHR 0x27 # s @ [CHR 0x27]"

text \<open>\<^verbatim>\<open>obj[key]\<close> for a string \<^verbatim>\<open>key\<close>: only a dictionary that holds the key answers.\<close>

fun subscript :: "pyval \<Rightarrow> string \<Rightarrow> exn + pyval" where
  "subscript (PDict kvs) k = (case map_of kvs k of None \<Rightarrow> Inl (KeyError k) | Some v \<Rightarrow> Inr v)"
| "subscript (PStr s) k = Inl (TypeError (''string indices must be integers, not '' @ squote ''str''))"
| "subscript (PList xs) k = Inl (TypeError ''list indices must be integers or slices, not str'')"
| "subscript PNone k = Inl (TypeError (squote ''NoneType'' @ '' object is not subscriptable''))"
| "subscript (PBool b) k = Inl (TypeError (squote ''bool'' @ '' object is not subscriptable''))"
| "subscript (PInt i) k = Inl (TypeError (squote ''int'' @ '' object is not subscriptable''))"

section \<open>The field extractor\<close>

text \<open>
  \<^verbatim>\<open>extract_weather_info\<close> builds a dictionary display; Python evaluates its five values from
  top to bottom, and the first subscript that raises ends the call.
\<close>

definition extract_weather_info :: "pyval \<Rightarrow> exn + pyval" where
  "extract_weather_info data =
     then_exn (then_exn (subscript data ''location'') (\<lambda>l. subscript l ''name'')) (\<lambda>name.
     then_exn (then_exn (subscript data ''location'') (\<lambda>l. subscript l ''region'')) (\<lambda>region.
     then_exn (then_exn (subscript data ''location'') (\<lambda>l. subscript l ''localtime'')) (\<lambda>local_time.
     then_exn (then_exn (subscript data ''current'') (\<lambda>c. subscript c ''temperature'')) (\<lambda>temperature.
     then_exn (then_exn (subscript data ''current'') (\<lambda>c. subscript c ''feelslike'')) (\<lambda>feels_like.
       Inr (PDict [(''name'', name), (''region'', region), (''local_time'', local_time),
                   (''temperature'', temperature), (''feels_like'', feels_like)]))))))"

text \<open>
  What the specification calls a source field \<open>a.b\<close> of a raw response: the value under
  key \<open>b\<close> of the mapping under key \<open>a\<close>. The field is absent when either key is missing
  or the value under \<open>a\<close> is no mapping.
\<close>

definition field :: "pyval \<Rightarrow> string \<Rightarrow> string \<Rightarrow> pyval option" where
  "field data a b =
     (case data of
        PDict kvs \<Rightarrow>
          (case map_of kvs a of
             Some (PDict sub) \<Rightarrow> map_of sub b
           | _ \<Rightarrow> None)
      | _ \<Rightarrow> None)"

definition is_KeyError :: "exn + 'a \<Rightarrow> bool" where
  "is_KeyError r = (case r of Inl (KeyError k) \<Rightarrow> True | _ \<Rightarrow> False)"

text \<open>The sub-mapping under a top-level key is a mapping whenever the key is there.\<close>

definition mapping_or_missing :: "pyval \<Rightarrow> string \<Rightarrow> bool" where
  "mapping_or_missing data a =
     (case data of
        PDict kvs \<Rightarrow> (case map_of kvs a of None \<Rightarrow> True | Some (PDict sub) \<Rightarrow> True | Some _ \<Rightarrow> False)
      | _ \<Rightarrow> False)"

definition athens_2024 :: pyval where
  "athens_2024 =
     PDict [(''location'', PDict [(''name'', PStr ''Athens''), (''region'', PStr ''Attica''),
                                  (''localtime'', PStr ''2024-01-01 10:00'')]),
            (''current'', PDict [(''temperature'', PInt 15), (''feelslike'', PInt 13)])]"

section \<open>Text for display: decimal numbers, \<^verbatim>\<open>str\<close>, \<^verbatim>\<open>repr\<close>\<close>

definition digit_char :: "nat \<Rightarrow> char" where
  "digit_char d = char_of (48 + d)"

function str_nat :: "nat \<Rightarrow> string" where
  "str_nat n = (if n < 10 then [digit_char n] else str_nat (n div 10) @ [digit_char (n mod 10)])"
  by pat_completeness auto
termination
  by (relation "measure id") auto

declare str_nat.simps [simp del]

text \<open>The decimal text of an \<^verbatim>\<open>int\<close>, as \<^verbatim>\<open>str\<close>, \<^verbatim>\<open>repr\<close> and the JSON encoder write it.\<close>

definition str_int :: "int \<Rightarrow> string" where
  "str_int i = (if i < 0 then CHR ''-'' # str_nat (nat (- i)) else str_nat (nat i))"

definition hex_digit :: "nat \<Rightarrow> char" where
  "hex_digit d = (if d < 10 then char_of (48 + d) else char_of (87 + d))"

text \<open>
  \<^verbatim>\<open>repr\<close> of a string: double quotes only when the text has a single quote and no double
  quote; the quote and the backslash are escaped, tab, newline and return have their letters,
  and a code point that is not printable (controls, DEL, 0x80 to 0xA0, the soft hyphen 0xAD) is
  written \<^verbatim>\<open>\xhh\<close>.
\<close>

definition repr_char :: "char \<Rightarrow> char \<Rightarrow> string" where
  "repr_char q c =
     (let n = (of_char c :: nat) in
      if c = q \<or> c = CHR 0x5C then [CHR 0x5C, c]
      else if c = CHR 0x09 then [CHR 0x5C, CHR ''t'']
      else if c = CHR 0x0A then [CHR 0x5C, CHR ''n'']
      else if c = CHR 0x0D then [CHR 0x5C, CHR ''r'']
      else if n < 32 \<or> n = 127 \<or> (128 \<le> n \<and> n \<le> 160) \<or> n = 173
        then [CHR 0x5C, CHR ''x'', hex_digit (n div 16), hex_digit (n mod 16)]
      else [c])"

definition repr_str :: "string \<Rightarrow> string" where
  "repr_str s =
     (let q = (if CHR 0x27 \<in> set s \<and> CHR 0x22 \<notin> set s then CHR 0x22 else CHR 0x27)
      in q # concat (map (repr_char q) s) @ [q])"

fun py_repr :: "pyval \<Rightarrow> string"
  and repr_items :: "pyval list \<Rightarrow> string"
  and repr_pairs :: "(string \<times> pyval) list \<Rightarrow> string"
where
  "py_repr PNone = ''None''"
| "py_repr (PBool b) = (if b then ''True'' else ''False'')"
| "py_repr (PInt i) = str_int i"
| "py_repr (PStr s) = repr_str s"
| "py_repr (PList xs) = ''['' @ repr_items xs @ '']''"
| "py_repr (PDict kvs) = ''{'' @ repr_pairs kvs @ ''}''"
| "repr_items [] = []"
| "repr_items [x] = py_repr x"
| "repr_items (x # y # xs) = py_repr x @ '', '' @ repr_items (y # xs)"
| "repr_pairs [] = []"
| "repr_pairs [(k, v)] = repr_str k @ '': '' @ py_repr v"
| "repr_pairs ((k, v) # kv # kvs) = repr_str k @ '': '' @ py_repr v @ '', '' @ repr_pairs (kv # kvs)"

text \<open>A replacement field \<^verbatim>\<open>{x}\<close> of an f-string: \<^verbatim>\<open>str(x)\<close>.\<close>

definition format_value :: "pyval \<Rightarrow> string" where
  "format_value v = (case v of PStr s \<Rightarrow> s | _ \<Rightarrow> py_repr v)"

section \<open>The formatter: \<^verbatim>\<open>json.dumps(obj, indent=4)\<close>\<close>

text \<open>
  The encoder escapes to ASCII: the backslash, the double quote and the five named controls
  have two-character escapes, every other code point outside \<open>0x20..0x7E\<close> is written
  \<^verbatim>\<open>\u00hh\<close>.
\<close>

definition escape_ascii :: "char \<Rightarrow> string" where
  "escape_ascii c =
     (let n = (of_char c :: nat) in
      if c = CHR 0x5C then [CHR 0x5C, CHR 0x5C]
      else if c = CHR 0x22 then [CHR 0x5C, CHR 0x22]
      else if c = CHR 0x08 then [CHR 0x5C, CHR ''b'']
      else if c = CHR 0x0C then [CHR 0x5C, CHR ''f'']
      else if c = CHR 0x0A then [CHR 0x5C, CHR ''n'']
      else if c = CHR 0x0D then [CHR 0x5C, CHR ''r'']
      else if c = CHR 0x09 then [CHR 0x5C, CHR ''t'']
      else if 32 \<le> n \<and> n \<le> 126 then [c]
      else [CHR 0x5C, CHR ''u'', CHR ''0'', CHR ''0'', hex_digit (n div 16), hex_digit (n mod 16)])"

definition encode_basestring_ascii :: "string \<Rightarrow> string" where
  "encode_basestring_ascii s = CHR 0x22 # concat (map escape_ascii s) @ [CHR 0x22]"

text \<open>A line break followed by the indentation of a nesting level, four spaces a level.\<close>

definition newline_indent :: "nat \<Rightarrow> string" where
  "newline_indent level = CHR 0x0A # replicate (4 * level) CHR '' ''"

text \<open>
  With an indent the item separator is a comma and the key separator a colon and a space; an
  empty list or dictionary is written closed on the spot. This is the text the encoder writes
  for a value of the model; the limits of the interpreter under which it raises (an integer of
  more than 4300 digits, nesting beyond the recursion limit) are not modelled.
\<close>

fun iterencode :: "nat \<Rightarrow> pyval \<Rightarrow> string"
  and iterencode_list :: "nat \<Rightarrow> pyval list \<Rightarrow> string"
  and iterencode_dict :: "nat \<Rightarrow> (string \<times> pyval) list \<Rightarrow> string"
where
  "iterencode l PNone = ''null''"
| "iterencode l (PBool b) = (if b then ''true'' else ''false'')"
| "iterencode l (PInt i) = str_int i"
| "iterencode l (PStr s) = encode_basestring_ascii s"
| "iterencode l (PList xs) =
     (if xs = [] then ''[]''
      else ''['' @ newline_indent (Suc l) @ iterencode_list (Suc l) xs @ newline_indent l @ '']'')"
| "iterencode l (PDict kvs) =
     (if kvs = [] then ''{}''
      else ''{'' @ newline_indent (Suc l) @ iterencode_dict (Suc l) kvs @ newline_indent l @ ''}'')"
| "iterencode_list l [] = []"
| "iterencode_list l [x] = iterencode l x"
| "iterencode_list l (x # y # xs) =
     iterencode l x @ '','' @ newline_indent l @ iterencode_list l (y # xs)"
| "iterencode_dict l [] = []"
| "iterencode_dict l [(k, v)] = encode_basestring_ascii k @ '': '' @ iterencode l v"
| "iterencode_dict l ((k, v) # kv # kvs) =
     encode_basestring_ascii k @ '': '' @ iterencode l v @ '','' @ newline_indent l
       @ iterencode_dict l (kv # kvs)"

definition inspect_response :: "pyval \<Rightarrow> string" where
  "inspect_response weather_response = iterencode 0 weather_response"

section \<open>The credential loader and the weather fetcher\<close>

text \<open>
  What the libraries give back is the environment of the script. An exception of the fetch is
  an instance of \<^verbatim>\<open>Exception\<close>, told apart as the handlers of \<^verbatim>\<open>search_weather\<close> tell it
  apart: a \<^verbatim>\<open>requests.HTTPError\<close> or anything else, each with the text \<^verbatim>\<open>str\<close> gives for it.
  A response has its HTTP status; it answers \<^verbatim>\<open>raise_for_status()\<close> by raising or not, and
  \<^verbatim>\<open>json()\<close> by raising or by the decoded body. \<^verbatim>\<open>getenv\<close> is \<^verbatim>\<open>os.getenv\<close> as it answers
  once \<^verbatim>\<open>load_dotenv()\<close> has run.
\<close>

datatype fetch_exn = HTTPError string | OtherException string

record response =
  status_code :: nat
  raise_for_status :: "fetch_exn option"
  json :: "fetch_exn + pyval"

text \<open>
  The \<^verbatim>\<open>raise_for_status\<close> of the \<^verbatim>\<open>requests\<close> library raises a \<^verbatim>\<open>requests.HTTPError\<close> for a
  client error (status 400 to 499) and for a server error (500 to 599), and for no other
  status. A response of the library answers so.
\<close>

definition error_status :: "nat \<Rightarrow> bool" where
  "error_status code \<longleftrightarrow> 400 \<le> code \<and> code < 600"

definition library_response :: "response \<Rightarrow> bool" where
  "library_response r =
     (case raise_for_status r of
        None \<Rightarrow> \<not> error_status (status_code r)
      | Some (HTTPError http_error_msg) \<Rightarrow> error_status (status_code r)
      | Some (OtherException msg) \<Rightarrow> False)"

record world =
  getenv :: "string \<Rightarrow> string option"
  requests_get :: "string \<Rightarrow> fetch_exn + response"

text \<open>What the script does to the outside, in order. \<^verbatim>\<open>print\<close> writes a line to standard output.\<close>

datatype stream = Stdout | Stderr

datatype event = LoadDotenv | Getenv string | HttpGet string | Write stream string

definition print :: "string \<Rightarrow> event" where
  "print s = Write Stdout (s @ [CHR 0x0A])"

definition load_environment :: "world \<Rightarrow> event list \<times> string option" where
  "load_environment W = ([LoadDotenv, Getenv ''WEATHER_API''], getenv W ''WEATHER_API'')"

definition weather_url :: "string \<Rightarrow> string option \<Rightarrow> string" where
  "weather_url location API_KEY =
     ''https://api.weatherstack.com/current?query='' @ location @ ''&access_key=''
       @ (case API_KEY of None \<Rightarrow> ''None'' | Some k \<Rightarrow> k)"

definition fetch_diagnostic :: "fetch_exn \<Rightarrow> string" where
  "fetch_diagnostic e =
     (case e of
        HTTPError http_err \<Rightarrow> ''HTTP error occurred: '' @ http_err
      | OtherException err \<Rightarrow> ''Other error occurred: '' @ err)"

text \<open>
  The body of the \<^verbatim>\<open>try\<close>: \<^verbatim>\<open>requests.get\<close>, \<^verbatim>\<open>raise_for_status\<close>, \<^verbatim>\<open>json\<close>, the first
  exception ending it.
\<close>

definition try_fetch :: "world \<Rightarrow> string \<Rightarrow> fetch_exn + pyval" where
  "try_fetch W URL =
     (case requests_get W URL of
        Inl e \<Rightarrow> Inl e
      | Inr response \<Rightarrow>
          (case raise_for_status response of
             Some e \<Rightarrow> Inl e
           | None \<Rightarrow> json response))"

definition search_weather :: "world \<Rightarrow> pyval \<Rightarrow> event list \<times> (exn + pyval)" where
  "search_weather W location =
     (case location of
        PStr loc \<Rightarrow>
          (let (evs, API_KEY) = load_environment W;
               URL = weather_url loc API_KEY
           in case try_fetch W URL of
                Inr body \<Rightarrow> (evs @ [HttpGet URL], Inr body)
              | Inl e \<Rightarrow> (evs @ [HttpGet URL, print (fetch_diagnostic e)], Inr (PDict [])))
      | _ \<Rightarrow> ([], Inl (TypeError ''Input must be a string.'')))"

section \<open>The module body\<close>

definition summary_sentence :: "pyval \<Rightarrow> exn + string" where
  "summary_sentence weather_summary =
     then_exn (subscript weather_summary ''name'') (\<lambda>name.
     then_exn (subscript weather_summary ''temperature'') (\<lambda>temperature.
     then_exn (subscript weather_summary ''feels_like'') (\<lambda>feels_like.
       Inr (''The temperature in '' @ format_value name @ '' is '' @ format_value temperature
            @ '' degrees Celcius and feels like '' @ format_value feels_like @ '' degrees.''))))"

definition module_body :: "world \<Rightarrow> event list \<times> (exn + unit)" where
  "module_body W =
     (case search_weather W (PStr ''Athens'') of
        (evs, Inl e) \<Rightarrow> (evs, Inl e)
      | (evs, Inr weather_data) \<Rightarrow>
          (let evs1 = evs @ [print (inspect_response weather_data)]
           in case extract_weather_info weather_data of
                Inl e \<Rightarrow> (evs1, Inl e)
              | Inr weather_summary \<Rightarrow>
                  (case summary_sentence weather_summary of
                     Inl e \<Rightarrow> (evs1, Inl e)
                   | Inr sentence \<Rightarrow> (evs1 @ [print sentence], Inr ()))))"

text \<open>The lines written to a stream, in order.\<close>

definition written :: "stream \<Rightarrow> event list \<Rightarrow> string list" where
  "written st evs = concat (map (\<lambda>e. case e of Write st' s \<Rightarrow> (if st' = st then [s] else []) | _ \<Rightarrow> []) evs)"

section \<open>Example inputs\<close>

text \<open>The raw response of the end-to-end scenario, and one whose location is only a name.\<close>

definition athens_raw :: pyval where
  "athens_raw =
     PDict [(''location'', PDict [(''name'', PStr ''Athens''), (''region'', PStr ''Attica''),
                                  (''localtime'', PStr ''t'')]),
            (''current'', PDict [(''temperature'', PInt 20), (''feelslike'', PInt 19)])]"

definition athens_flat :: pyval where
  "athens_flat =
     PDict [(''location'', PStr ''Athens''),
            (''current'', PDict [(''temperature'', PInt 20), (''feelslike'', PInt 19)])]"

definition athens_extra :: pyval where
  "athens_extra =
     PDict [(''request'', PDict [(''query'', PStr ''Athens, Greece'')]),
            (''location'', PDict [(''country'', PStr ''Greece''), (''name'', PStr ''Athens''),
                                  (''region'', PStr ''Attica''), (''localtime'', PStr ''t'')]),
            (''current'', PDict [(''temperature'', PInt 20), (''humidity'', PInt 40),
                                 (''feelslike'', PInt 19)])]"

text \<open>
  Four environments without a credential: the request itself raises; the response has an error
  status; the body is no JSON; the body of a response with status 200 decodes to a given value.
\<close>

definition world_down :: world where
  "world_down =
     \<lparr>getenv = (\<lambda>name. None),
      requests_get = (\<lambda>URL. Inl (OtherException ''connection refused''))\<rparr>"

definition world_http_error :: world where
  "world_http_error =
     \<lparr>getenv = (\<lambda>name. None),
      requests_get = (\<lambda>URL. Inr \<lparr>status_code = 401,
                                  raise_for_status = Some (HTTPError ''401 Client Error''),
                                  json = Inr (PDict [])\<rparr>)\<rparr>"

definition world_bad_json :: world where
  "world_bad_json =
     \<lparr>getenv = (\<lambda>name. None),
      requests_get = (\<lambda>URL. Inr \<lparr>status_code = 200, raise_for_status = None,
                                  json = Inl (OtherException ''Expecting value'')\<rparr>)\<rparr>"

definition world_ok :: "pyval \<Rightarrow> world" where
  "world_ok body =
     \<lparr>getenv = (\<lambda>name. None),
      requests_get = (\<lambda>URL. Inr \<lparr>status_code = 200, raise_for_status = None,
                                  json = Inr body\<rparr>)\<rparr>"

text \<open>
  A response with status 300 (Multiple Choices) and a JSON body, answering as the library does,
  and the environment that gives it.
\<close>

definition response_300 :: response where
  "response_300 = \<lparr>status_code = 300, raise_for_status = None, json = Inr athens_raw\<rparr>"

definition world_multiple_choices :: world where
  "world_multiple_choices =
     \<lparr>getenv = (\<lambda>name. None), requests_get = (\<lambda>URL. Inr response_300)\<rparr>"

section \<open>Properties of the extractor\<close>

lemma subscript_field:
  "then_exn (subscript data a) (\<lambda>l. subscript l b) = Inr v \<longleftrightarrow> field data a b = Some v"
  by (cases data) (auto simp: then_exn_def field_def split: option.splits pyval.splits)

lemma extract_weather_info_Inr:
  "extract_weather_info data = Inr s \<longleftrightarrow>
     (\<exists>n r t c f.
        field data ''location'' ''name'' = Some n \<and>
        field data ''location'' ''region'' = Some r \<and>
        field data ''location'' ''localtime'' = Some t \<and>
        field data ''current'' ''temperature'' = Some c \<and>
        field data ''current'' ''feelslike'' = Some f \<and>
        s = PDict [(''name'', n), (''region'', r), (''local_time'', t),
                   (''temperature'', c), (''feels_like'', f)])"
proof -
  let ?g = "\<lambda>a b. then_exn (subscript data a) (\<lambda>l. subscript l b)"
  have split: "\<And>r f. then_exn r f = Inr s \<longleftrightarrow> (\<exists>v. r = Inr v \<and> f v = Inr s)"
    by (auto simp: then_exn_def split: sum.splits)
  show ?thesis
    unfolding extract_weather_info_def split subscript_field
    by auto
qed

text \<open>
  C5. \<^verbatim>\<open>extract_weather_info\<close> is a projection: on the raw mapping of Athens on 2024-01-01 it
  returns exactly the five-key summary of the specification, and on every input it returns the
  five source fields, unchanged, under the five output keys.
\<close>

theorem extract_weather_info_projection:
  "extract_weather_info athens_2024 =
      Inr (PDict [(''name'', PStr ''Athens''), (''region'', PStr ''Attica''),
                  (''local_time'', PStr ''2024-01-01 10:00''),
                  (''temperature'', PInt 15), (''feels_like'', PInt 13)])
   \<and> (\<forall>data n r t c f.
        field data ''location'' ''name'' = Some n \<and>
        field data ''location'' ''region'' = Some r \<and>
        field data ''location'' ''localtime'' = Some t \<and>
        field data ''current'' ''temperature'' = Some c \<and>
        field data ''current'' ''feelslike'' = Some f
        \<longrightarrow> extract_weather_info data =
              Inr (PDict [(''name'', n), (''region'', r), (''local_time'', t),
                          (''temperature'', c), (''feels_like'', f)]))"
proof (intro conjI allI impI)
  show "extract_weather_info athens_2024 =
      Inr (PDict [(''name'', PStr ''Athens''), (''region'', PStr ''Attica''),
                  (''local_time'', PStr ''2024-01-01 10:00''),
                  (''temperature'', PInt 15), (''feels_like'', PInt 13)])"
    by (simp add: extract_weather_info_Inr field_def athens_2024_def)
next
  fix data n r t c f
  assume "field data ''location'' ''name'' = Some n \<and>
        field data ''location'' ''region'' = Some r \<and>
        field data ''location'' ''localtime'' = Some t \<and>
        field data ''current'' ''temperature'' = Some c \<and>
        field data ''current'' ''feelslike'' = Some f"
  then show "extract_weather_info data =
              Inr (PDict [(''name'', n), (''region'', r), (''local_time'', t),
                          (''temperature'', c), (''feels_like'', f)])"
    by (simp add: extract_weather_info_Inr)
qed

theorem extract_weather_info_projection_witness:
  "field athens_extra ''location'' ''name'' = Some (PStr ''Athens'')
   \<and> field athens_extra ''location'' ''region'' = Some (PStr ''Attica'')
   \<and> field athens_extra ''location'' ''localtime'' = Some (PStr ''t'')
   \<and> field athens_extra ''current'' ''temperature'' = Some (PInt 20)
   \<and> field athens_extra ''current'' ''feelslike'' = Some (PInt 19)
   \<and> extract_weather_info athens_extra =
       Inr (PDict [(''name'', PStr ''Athens''), (''region'', PStr ''Attica''),
                   (''local_time'', PStr ''t''), (''temperature'', PInt 20),
                   (''feels_like'', PInt 19)])"
proof -
  have h: "field athens_extra ''location'' ''name'' = Some (PStr ''Athens'')
   \<and> field athens_extra ''location'' ''region'' = Some (PStr ''Attica'')
   \<and> field athens_extra ''location'' ''localtime'' = Some (PStr ''t'')
   \<and> field athens_extra ''current'' ''temperature'' = Some (PInt 20)
   \<and> field athens_extra ''current'' ''feelslike'' = Some (PInt 19)"
    by (simp add: field_def athens_extra_def)
  from extract_weather_info_projection [THEN conjunct2, rule_format, OF h] h
  show ?thesis by simp
qed

text \<open>
  C10. The result of \<^verbatim>\<open>extract_weather_info\<close> depends on the five source fields only: when two
  inputs agree on them, whatever one call returns the other returns too, so every other key of
  the raw response is ignored.
\<close>

theorem extract_weather_info_only_five_fields:
  assumes "field d1 ''location'' ''name'' = field d2 ''location'' ''name''"
    and "field d1 ''location'' ''region'' = field d2 ''location'' ''region''"
    and "field d1 ''location'' ''localtime'' = field d2 ''location'' ''localtime''"
    and "field d1 ''current'' ''temperature'' = field d2 ''current'' ''temperature''"
    and "field d1 ''current'' ''feelslike'' = field d2 ''current'' ''feelslike''"
  shows "extract_weather_info d1 = Inr s \<longleftrightarrow> extract_weather_info d2 = Inr s"
  using assms by (simp add: extract_weather_info_Inr)

theorem extract_weather_info_only_five_fields_witness:
  "athens_raw \<noteq> athens_extra
   \<and> extract_weather_info athens_extra = extract_weather_info athens_raw
   \<and> extract_weather_info athens_raw =
       Inr (PDict [(''name'', PStr ''Athens''), (''region'', PStr ''Attica''),
                   (''local_time'', PStr ''t''), (''temperature'', PInt 20),
                   (''feels_like'', PInt 19)])"
proof -
  have raw: "extract_weather_info athens_raw =
       Inr (PDict [(''name'', PStr ''Athens''), (''region'', PStr ''Attica''),
                   (''local_time'', PStr ''t''), (''temperature'', PInt 20),
                   (''feels_like'', PInt 19)])"
    by (simp add: extract_weather_info_Inr field_def athens_raw_def)
  have "extract_weather_info athens_extra =
       Inr (PDict [(''name'', PStr ''Athens''), (''region'', PStr ''Attica''),
                   (''local_time'', PStr ''t''), (''temperature'', PInt 20),
                   (''feels_like'', PInt 19)])"
    using raw
    by (subst extract_weather_info_only_five_fields [of athens_extra athens_raw])
       (simp_all add: field_def athens_raw_def athens_extra_def)
  with raw show ?thesis by (simp add: athens_raw_def athens_extra_def)
qed

text \<open>
  C2, as the code has it. When any of the five source fields is absent from the input,
  \<^verbatim>\<open>extract_weather_info\<close> raises and returns no summary, so no default ever stands in for a
  field. The error is a \<^verbatim>\<open>KeyError\<close> whenever the input is a mapping whose \<^verbatim>\<open>location\<close> and
  \<^verbatim>\<open>current\<close> entries, where present, are mappings; for the empty mapping of a failed fetch it
  is \<^verbatim>\<open>KeyError('location')\<close>.
\<close>

theorem extract_weather_info_absent_field:
  assumes "field data ''location'' ''name'' = None
         \<or> field data ''location'' ''region'' = None
         \<or> field data ''location'' ''localtime'' = None
         \<or> field data ''current'' ''temperature'' = None
         \<or> field data ''current'' ''feelslike'' = None"
  shows "(\<exists>e. extract_weather_info data = Inl e)
       \<and> (mapping_or_missing data ''location'' \<and> mapping_or_missing data ''current''
            \<longrightarrow> is_KeyError (extract_weather_info data))
       \<and> extract_weather_info (PDict []) = Inl (KeyError ''location'')"
proof (intro conjI impI)
  have "extract_weather_info data \<noteq> Inr s" for s
    using assms unfolding extract_weather_info_Inr by auto
  then show raises: "\<exists>e. extract_weather_info data = Inl e"
    by (cases "extract_weather_info data") auto
  show "extract_weather_info (PDict []) = Inl (KeyError ''location'')"
    by (simp add: extract_weather_info_def then_exn_def)
  assume shape: "mapping_or_missing data ''location'' \<and> mapping_or_missing data ''current''"
  have key: "is_KeyError (then_exn (subscript data a) (\<lambda>l. subscript l b))
             \<or> (\<exists>v. then_exn (subscript data a) (\<lambda>l. subscript l b) = Inr v)"
    if "mapping_or_missing data a" for a b
    using that
    by (cases data)
       (auto simp: mapping_or_missing_def then_exn_def is_KeyError_def
             split: option.splits pyval.splits)
  from raises obtain e where e: "extract_weather_info data = Inl e" by blast
  have "\<exists>k. e = KeyError k"
    using e key [of "''location''" "''name''"] key [of "''location''" "''region''"]
      key [of "''location''" "''localtime''"] key [of "''current''" "''temperature''"]
      key [of "''current''" "''feelslike''"] shape
    unfolding extract_weather_info_def
    by (auto simp: then_exn_def is_KeyError_def split: sum.splits exn.splits)
  with e show "is_KeyError (extract_weather_info data)"
    by (auto simp: is_KeyError_def)
qed

theorem extract_weather_info_absent_field_witness:
  "field (PDict []) ''location'' ''name'' = None
   \<and> mapping_or_missing (PDict []) ''location'' \<and> mapping_or_missing (PDict []) ''current''
   \<and> is_KeyError (extract_weather_info (PDict []))
   \<and> (\<exists>e. extract_weather_info athens_flat = Inl e)"
proof -
  have h: "field (PDict []) ''location'' ''name'' = None"
    by (simp add: field_def)
  have m: "mapping_or_missing (PDict []) ''location'' \<and> mapping_or_missing (PDict []) ''current''"
    by (simp add: mapping_or_missing_def)
  have f: "field athens_flat ''location'' ''name'' = None"
    by (simp add: field_def athens_flat_def)
  from extract_weather_info_absent_field [of "PDict []"] h m
  have "is_KeyError (extract_weather_info (PDict []))" by blast
  moreover from extract_weather_info_absent_field [of athens_flat] f
  have "\<exists>e. extract_weather_info athens_flat = Inl e" by blast
  ultimately show ?thesis using h m by blast
qed

text \<open>
  The claim C2 as stated fails where the \<^verbatim>\<open>location\<close> entry is a string: the field
  \<^verbatim>\<open>location.name\<close> is absent, and subscripting the string raises a \<^verbatim>\<open>TypeError\<close>, which is no
  key-lookup error.
\<close>

theorem extract_weather_info_key_error_counterexample:
  "field athens_flat ''location'' ''name'' = None
   \<and> extract_weather_info athens_flat
       = Inl (TypeError (''string indices must be integers, not '' @ squote ''str''))
   \<and> \<not> is_KeyError (extract_weather_info athens_flat)"
  by (simp add: field_def athens_flat_def extract_weather_info_def then_exn_def is_KeyError_def)

section \<open>Properties of the fetcher\<close>

lemma try_fetch_Inl:
  "try_fetch W URL = Inl e \<longleftrightarrow>
     requests_get W URL = Inl e
     \<or> (\<exists>r. requests_get W URL = Inr r \<and> raise_for_status r = Some e)
     \<or> (\<exists>r. requests_get W URL = Inr r \<and> raise_for_status r = None \<and> json r = Inl e)"
  by (auto simp: try_fetch_def split: sum.splits option.splits)

lemma try_fetch_Inr:
  "try_fetch W URL = Inr body \<longleftrightarrow>
     (\<exists>r. requests_get W URL = Inr r \<and> raise_for_status r = None \<and> json r = Inr body)"
  by (auto simp: try_fetch_def split: sum.splits option.splits)

lemma search_weather_str:
  "search_weather W (PStr loc) =
     (case try_fetch W (weather_url loc (getenv W ''WEATHER_API'')) of
        Inr body \<Rightarrow>
          ([LoadDotenv, Getenv ''WEATHER_API'',
            HttpGet (weather_url loc (getenv W ''WEATHER_API''))], Inr body)
      | Inl e \<Rightarrow>
          ([LoadDotenv, Getenv ''WEATHER_API'',
            HttpGet (weather_url loc (getenv W ''WEATHER_API'')), print (fetch_diagnostic e)],
           Inr (PDict [])))"
  by (simp add: search_weather_def load_environment_def split: sum.splits)

lemma search_weather_returns:
  assumes "snd (search_weather W (PStr loc)) = Inr body" and "body \<noteq> PDict []"
  shows "search_weather W (PStr loc) =
           ([LoadDotenv, Getenv ''WEATHER_API'',
             HttpGet (weather_url loc (getenv W ''WEATHER_API''))], Inr body)"
  using assms
  by (cases "try_fetch W (weather_url loc (getenv W ''WEATHER_API''))")
     (simp_all add: search_weather_str)

lemma try_fetch_world_down: "try_fetch world_down URL = Inl (OtherException ''connection refused'')"
  by (simp add: try_fetch_def world_down_def)

lemma try_fetch_world_http_error: "try_fetch world_http_error URL = Inl (HTTPError ''401 Client Error'')"
  by (simp add: try_fetch_def world_http_error_def)

lemma try_fetch_world_ok: "try_fetch (world_ok body) URL = Inr body"
  by (simp add: try_fetch_def world_ok_def)

text \<open>
  C1, as the code has it. For every failed fetch, \<^verbatim>\<open>search_weather\<close> returns the empty
  mapping and does not raise: whether \<^verbatim>\<open>requests.get\<close> raises, the response has an HTTP error
  status (400 to 599, for which the library's \<^verbatim>\<open>raise_for_status\<close> raises), \<^verbatim>\<open>raise_for_status\<close>
  raises for any reason, or \<^verbatim>\<open>json\<close> raises while decoding the body. The value returned is the
  one a fetch returns that succeeds with an empty mapping as its body, so the caller cannot tell
  the two apart. (The exceptions are instances of \<^verbatim>\<open>Exception\<close>, as the handler catches them.)
\<close>

theorem search_weather_failed_fetch_empty:
  assumes "URL = weather_url loc (getenv W ''WEATHER_API'')"
    and "(\<exists>e. requests_get W URL = Inl e)
       \<or> (\<exists>r. requests_get W URL = Inr r \<and> library_response r \<and> error_status (status_code r))
       \<or> (\<exists>r e. requests_get W URL = Inr r \<and> raise_for_status r = Some e)
       \<or> (\<exists>r e. requests_get W URL = Inr r \<and> json r = Inl e)"
  shows "snd (search_weather W (PStr loc)) = Inr (PDict [])
       \<and> (\<forall>W' r'. requests_get W' (weather_url loc (getenv W' ''WEATHER_API'')) = Inr r'
                    \<and> raise_for_status r' = None \<and> json r' = Inr (PDict [])
             \<longrightarrow> snd (search_weather W' (PStr loc)) = snd (search_weather W (PStr loc)))"
proof -
  have raises: "\<exists>e. raise_for_status r = Some e"
    if "library_response r" and "error_status (status_code r)" for r
    using that by (cases "raise_for_status r") (simp_all add: library_response_def)
  have "\<exists>e. try_fetch W URL = Inl e"
  proof (cases "requests_get W URL")
    case (Inl e)
    then show ?thesis by (simp add: try_fetch_def)
  next
    case (Inr r)
    with assms(2) raises [of r]
    have "(\<exists>e. raise_for_status r = Some e) \<or> (\<exists>e. json r = Inl e)" by auto
    with Inr show ?thesis
      by (cases "raise_for_status r") (auto simp: try_fetch_def)
  qed
  then obtain e where "try_fetch W URL = Inl e" by blast
  then have failed: "snd (search_weather W (PStr loc)) = Inr (PDict [])"
    using assms(1) by (simp add: search_weather_str)
  have "snd (search_weather W' (PStr loc)) = Inr (PDict [])"
    if "requests_get W' (weather_url loc (getenv W' ''WEATHER_API'')) = Inr r'
        \<and> raise_for_status r' = None \<and> json r' = Inr (PDict [])" for W' r'
  proof -
    from that have "try_fetch W' (weather_url loc (getenv W' ''WEATHER_API'')) = Inr (PDict [])"
      unfolding try_fetch_Inr by blast
    then show ?thesis by (simp add: search_weather_str)
  qed
  with failed show ?thesis by auto
qed

theorem search_weather_failed_fetch_empty_witness:
  "snd (search_weather world_down (PStr ''Athens'')) = Inr (PDict [])
   \<and> snd (search_weather world_http_error (PStr ''Athens'')) = Inr (PDict [])
   \<and> snd (search_weather world_bad_json (PStr ''Athens'')) = Inr (PDict [])
   \<and> snd (search_weather (world_ok (PDict [])) (PStr ''Athens''))
       = snd (search_weather world_down (PStr ''Athens''))"
proof -
  have a: "snd (search_weather world_down (PStr ''Athens'')) = Inr (PDict [])
       \<and> (\<forall>W' r'. requests_get W' (weather_url ''Athens'' (getenv W' ''WEATHER_API'')) = Inr r'
                    \<and> raise_for_status r' = None \<and> json r' = Inr (PDict [])
             \<longrightarrow> snd (search_weather W' (PStr ''Athens''))
                   = snd (search_weather world_down (PStr ''Athens'')))"
    by (rule search_weather_failed_fetch_empty [OF refl]) (simp add: world_down_def)
  have b: "snd (search_weather world_http_error (PStr ''Athens'')) = Inr (PDict [])"
    by (rule search_weather_failed_fetch_empty [OF refl, THEN conjunct1])
       (simp add: world_http_error_def library_response_def error_status_def)
  have c: "snd (search_weather world_bad_json (PStr ''Athens'')) = Inr (PDict [])"
    by (rule search_weather_failed_fetch_empty [OF refl, THEN conjunct1])
       (simp add: world_bad_json_def)
  have d: "snd (search_weather (world_ok (PDict [])) (PStr ''Athens''))
       = snd (search_weather world_down (PStr ''Athens''))"
    using a [THEN conjunct2, rule_format, of "world_ok (PDict [])"
               "\<lparr>status_code = 200, raise_for_status = None, json = Inr (PDict [])\<rparr>"]
    by (simp add: world_ok_def)
  from a b c d show ?thesis by blast
qed

text \<open>
  The claim C1 as stated fails for a status that is neither 2xx nor an error status: the
  response with status 300 answers as the library's does, \<^verbatim>\<open>raise_for_status\<close> does not raise,
  and \<^verbatim>\<open>search_weather\<close> returns the decoded body, which is not the empty mapping.
\<close>

theorem search_weather_non_2xx_counterexample:
  "status_code response_300 = 300
   \<and> library_response response_300
   \<and> requests_get world_multiple_choices
        (weather_url ''Athens'' (getenv world_multiple_choices ''WEATHER_API'')) = Inr response_300
   \<and> snd (search_weather world_multiple_choices (PStr ''Athens'')) = Inr athens_raw
   \<and> athens_raw \<noteq> PDict []"
  by (simp add: search_weather_str try_fetch_def world_multiple_choices_def response_300_def
        library_response_def error_status_def athens_raw_def)

text \<open>
  C3. For every argument that is not a string, \<^verbatim>\<open>search_weather\<close> raises
  \<^verbatim>\<open>TypeError("Input must be a string.")\<close> at once: nothing has happened before, neither the
  credential has been read nor a request made. For a string the check does not raise: the call
  goes on to read the credential, and returns a value.
\<close>

theorem search_weather_type_check:
  "(\<forall>v. (\<forall>s. v \<noteq> PStr s)
       \<longrightarrow> search_weather W v = ([], Inl (TypeError ''Input must be a string.'')))
   \<and> (\<forall>s. \<exists>evs r. search_weather W (PStr s) = ([LoadDotenv, Getenv ''WEATHER_API''] @ evs, Inr r))"
proof (intro conjI allI impI)
  fix v assume "\<forall>s. v \<noteq> PStr s"
  then show "search_weather W v = ([], Inl (TypeError ''Input must be a string.''))"
    by (cases v) (simp_all add: search_weather_def)
next
  fix s
  show "\<exists>evs r. search_weather W (PStr s) = ([LoadDotenv, Getenv ''WEATHER_API''] @ evs, Inr r)"
    by (cases "try_fetch W (weather_url s (getenv W ''WEATHER_API''))")
       (simp_all add: search_weather_str)
qed

theorem search_weather_type_check_witness:
  "search_weather (world_ok athens_raw) (PInt 3) = ([], Inl (TypeError ''Input must be a string.''))
   \<and> search_weather (world_ok athens_raw) PNone = ([], Inl (TypeError ''Input must be a string.''))
   \<and> search_weather (world_ok athens_raw) (PList [PStr ''Athens''])
       = ([], Inl (TypeError ''Input must be a string.''))"
proof -
  have "search_weather (world_ok athens_raw) v = ([], Inl (TypeError ''Input must be a string.''))"
    if "\<forall>s. v \<noteq> PStr s" for v
    using search_weather_type_check [of "world_ok athens_raw"] that by blast
  then show ?thesis by simp
qed

text \<open>
  C4. When the response passes \<^verbatim>\<open>raise_for_status\<close> and its body decodes, \<^verbatim>\<open>search_weather\<close>
  returns exactly the decoded body, whatever it is, after reading the credential and making the
  one request, and writes nothing.
\<close>

theorem search_weather_returns_decoded_body:
  assumes "URL = weather_url loc (getenv W ''WEATHER_API'')"
    and "requests_get W URL = Inr r" and "raise_for_status r = None" and "json r = Inr body"
  shows "search_weather W (PStr loc) = ([LoadDotenv, Getenv ''WEATHER_API'', HttpGet URL], Inr body)"
proof -
  have "try_fetch W URL = Inr body"
    using assms(2-4) by (simp add: try_fetch_def)
  then show ?thesis
    using assms(1) by (simp add: search_weather_str)
qed

theorem search_weather_returns_decoded_body_witness:
  "search_weather (world_ok athens_extra) (PStr ''Athens'') =
     ([LoadDotenv, Getenv ''WEATHER_API'',
       HttpGet ''https://api.weatherstack.com/current?query=Athens&access_key=None''],
      Inr athens_extra)"
proof -
  have "search_weather (world_ok athens_extra) (PStr ''Athens'') =
     ([LoadDotenv, Getenv ''WEATHER_API'',
       HttpGet (weather_url ''Athens'' (getenv (world_ok athens_extra) ''WEATHER_API''))],
      Inr athens_extra)"
    by (rule search_weather_returns_decoded_body
          [OF refl, of _ _ "\<lparr>status_code = 200, raise_for_status = None,
                            json = Inr athens_extra\<rparr>"])
       (simp_all add: world_ok_def)
  then show ?thesis by (simp add: world_ok_def weather_url_def)
qed

text \<open>
  C8, as the code has it. On every exception of the fetch the diagnostic line is written by
  \<^verbatim>\<open>print\<close>, that is to standard output; nothing is written to the standard error stream.
\<close>

theorem search_weather_diagnostic_on_stdout:
  assumes "URL = weather_url loc (getenv W ''WEATHER_API'')"
    and "try_fetch W URL = Inl e"
  shows "written Stdout (fst (search_weather W (PStr loc))) = [fetch_diagnostic e @ [CHR 0x0A]]
       \<and> written Stderr (fst (search_weather W (PStr loc))) = []"
  using assms by (simp add: search_weather_str written_def print_def)

theorem search_weather_diagnostic_on_stdout_witness:
  "written Stdout (fst (search_weather world_http_error (PStr ''Athens'')))
     = [''HTTP error occurred: 401 Client Error'' @ [CHR 0x0A]]
   \<and> written Stderr (fst (search_weather world_http_error (PStr ''Athens''))) = []"
  using search_weather_diagnostic_on_stdout
          [OF refl try_fetch_world_http_error, of "''Athens''"]
  by (simp add: fetch_diagnostic_def)

text \<open>
  The claim C8 as stated fails when the request raises: the diagnostic is on standard output
  and the standard error stream stays empty.
\<close>

theorem search_weather_stderr_counterexample:
  "written Stderr (fst (search_weather world_down (PStr ''Athens''))) = []
   \<and> written Stdout (fst (search_weather world_down (PStr ''Athens'')))
       = [''Other error occurred: connection refused'' @ [CHR 0x0A]]"
  by (simp add: search_weather_str try_fetch_world_down written_def print_def fetch_diagnostic_def)

text \<open>
  C9. When \<^verbatim>\<open>WEATHER_API\<close> is unset (at the lookup, that is once \<^verbatim>\<open>load_dotenv\<close> has run),
  \<^verbatim>\<open>load_environment\<close> returns \<^verbatim>\<open>None\<close>, and \<^verbatim>\<open>search_weather\<close> on a string does not fail: it
  requests the URL that ends in \<^verbatim>\<open>access_key=None\<close> and returns a value.
\<close>

theorem search_weather_without_credential:
  assumes "getenv W ''WEATHER_API'' = None"
  shows "snd (load_environment W) = None
       \<and> (\<exists>evs r. search_weather W (PStr loc) =
             ([LoadDotenv, Getenv ''WEATHER_API'',
               HttpGet (''https://api.weatherstack.com/current?query='' @ loc
                          @ ''&access_key=None'')] @ evs,
              Inr r))"
proof
  show "snd (load_environment W) = None"
    using assms by (simp add: load_environment_def)
  show "\<exists>evs r. search_weather W (PStr loc) =
             ([LoadDotenv, Getenv ''WEATHER_API'',
               HttpGet (''https://api.weatherstack.com/current?query='' @ loc
                          @ ''&access_key=None'')] @ evs,
              Inr r)"
    using assms
    by (cases "try_fetch W (weather_url loc None)")
       (simp_all add: search_weather_str weather_url_def)
qed

theorem search_weather_without_credential_witness:
  "getenv world_bad_json ''WEATHER_API'' = None
   \<and> snd (load_environment world_bad_json) = None
   \<and> (\<exists>evs r. search_weather world_bad_json (PStr ''New York'') =
         ([LoadDotenv, Getenv ''WEATHER_API'',
           HttpGet ''https://api.weatherstack.com/current?query=New York&access_key=None''] @ evs,
          Inr r))"
proof -
  have h: "getenv world_bad_json ''WEATHER_API'' = None"
    by (simp add: world_bad_json_def)
  show ?thesis
    using h search_weather_without_credential [OF h, of "''New York''"] by simp
qed

section \<open>Properties of the module body\<close>

lemma str_int_20: "str_int 20 = ''20''"
  by code_simp

lemma str_int_19: "str_int 19 = ''19''"
  by code_simp

lemma athens_sentence:
  "summary_sentence (PDict [(''name'', PStr ''Athens''), (''region'', PStr ''Attica''),
       (''local_time'', PStr ''t''), (''temperature'', PInt 20), (''feels_like'', PInt 19)])
   = Inr ''The temperature in Athens is 20 degrees Celcius and feels like 19 degrees.''"
  by (simp add: summary_sentence_def then_exn_def format_value_def str_int_20 str_int_19)

text \<open>
  C6. End to end: when the fetch returns the raw mapping of the scenario, the script prints
  twice, first the formatted raw response and second exactly the sentence
  \<^verbatim>\<open>The temperature in Athens is 20 degrees Celcius and feels like 19 degrees.\<close>, and ends
  without an error.
\<close>

theorem module_body_athens_sentence:
  assumes "snd (search_weather W (PStr ''Athens'')) = Inr athens_raw"
  shows "written Stdout (fst (module_body W)) =
           [inspect_response athens_raw @ [CHR 0x0A],
            ''The temperature in Athens is 20 degrees Celcius and feels like 19 degrees.''
              @ [CHR 0x0A]]
         \<and> snd (module_body W) = Inr ()"
proof -
  have "athens_raw \<noteq> PDict []" by (simp add: athens_raw_def)
  from search_weather_returns [OF assms this]
  have sw: "search_weather W (PStr ''Athens'') =
           ([LoadDotenv, Getenv ''WEATHER_API'',
             HttpGet (weather_url ''Athens'' (getenv W ''WEATHER_API''))], Inr athens_raw)" .
  have ex: "extract_weather_info athens_raw =
     Inr (PDict [(''name'', PStr ''Athens''), (''region'', PStr ''Attica''),
       (''local_time'', PStr ''t''), (''temperature'', PInt 20), (''feels_like'', PInt 19)])"
    by (simp add: extract_weather_info_Inr field_def athens_raw_def)
  show ?thesis
    unfolding module_body_def sw
    by (simp add: ex athens_sentence written_def print_def)
qed

theorem module_body_athens_sentence_witness:
  "snd (search_weather (world_ok athens_raw) (PStr ''Athens'')) = Inr athens_raw
   \<and> written Stdout (fst (module_body (world_ok athens_raw))) =
           [inspect_response athens_raw @ [CHR 0x0A],
            ''The temperature in Athens is 20 degrees Celcius and feels like 19 degrees.''
              @ [CHR 0x0A]]
   \<and> snd (module_body (world_ok athens_raw)) = Inr ()"
proof -
  have h: "snd (search_weather (world_ok athens_raw) (PStr ''Athens'')) = Inr athens_raw"
    by (simp add: search_weather_str try_fetch_world_ok)
  show ?thesis
    using h module_body_athens_sentence [OF h] by simp
qed

end
